theory Spec2Isabelle
  imports Main
begin

section \<open>Values, rule specs and schemas\<close>

text \<open>
  The values a record slot or an \<open>enum\<close> entry holds after \<open>json.load\<close> or after
  the case generator: text, whole numbers, booleans and \<open>None\<close>. A string is a
  sequence of code points below 256, one \<open>char\<close> for each.
\<close>

datatype pyval = VStr string | VInt int | VBool bool | VNone

text \<open>
  \<open>isinstance(value, str)\<close>, \<open>isinstance(value, int)\<close> and
  \<open>isinstance(value, bool)\<close>. In Python \<open>bool\<close> is a subclass of \<open>int\<close>, so
  \<open>isinstance(True, int)\<close> holds.
\<close>

fun isinstance_str :: "pyval \<Rightarrow> bool" where
  "isinstance_str (VStr s) = True"
| "isinstance_str v = False"

fun isinstance_int :: "pyval \<Rightarrow> bool" where
  "isinstance_int (VInt i) = True"
| "isinstance_int (VBool b) = True"
| "isinstance_int v = False"

fun isinstance_bool :: "pyval \<Rightarrow> bool" where
  "isinstance_bool (VBool b) = True"
| "isinstance_bool v = False"

text \<open>The number a value of class \<open>int\<close> compares as: \<open>True\<close> is 1, \<open>False\<close> is 0.\<close>

fun int_value :: "pyval \<Rightarrow> int option" where
  "int_value (VInt i) = Some i"
| "int_value (VBool b) = Some (if b then 1 else 0)"
| "int_value v = None"

text \<open>Python's \<open>==\<close> on these values: numbers and booleans compare by number.\<close>

fun py_eq :: "pyval \<Rightarrow> pyval \<Rightarrow> bool" where
  "py_eq (VStr a) (VStr b) = (a = b)"
| "py_eq VNone VNone = True"
| "py_eq (VStr a) w = False"
| "py_eq v (VStr b) = False"
| "py_eq VNone w = False"
| "py_eq v VNone = False"
| "py_eq v w = (int_value v = int_value w)"

text \<open>\<open>value in xs\<close> for a list \<open>xs\<close>.\<close>

definition py_in :: "pyval \<Rightarrow> pyval list \<Rightarrow> bool" where
  "py_in v xs = list_ex (py_eq v) xs"

subsection \<open>Rendering values in messages\<close>

text \<open>\<open>str\<close> of an \<open>int\<close>: decimal digits, with a leading minus sign.\<close>

definition digit_char :: "nat \<Rightarrow> char" where
  "digit_char d = ''0123456789abcdef'' ! d"

function str_nat :: "nat \<Rightarrow> string" where
  "str_nat n = (if n < 10 then [digit_char n] else str_nat (n div 10) @ [digit_char (n mod 10)])"
  by pat_completeness auto
termination
  by (relation "measure (\<lambda>n. n)") auto

declare str_nat.simps [simp del]

definition str_int :: "int \<Rightarrow> string" where
  "str_int i = (if i < 0 then ''-'' @ str_nat (nat (- i)) else str_nat (nat i))"

text \<open>
  \<open>repr\<close> of a string: single quotes, unless the text holds a single quote and no
  double quote; backslash, the enclosing quote, newline, carriage return and tab are
  escaped, and every other character that is not printable is written \<open>\xNN\<close>:
  the code points below 32, those from 127 to 160, and 173.
\<close>

definition repr_char :: "char \<Rightarrow> char \<Rightarrow> string" where
  "repr_char q c =
     (if c = CHR 0x5C then [CHR 0x5C, CHR 0x5C]
      else if c = q then [CHR 0x5C, q]
      else if c = CHR 0x0A then [CHR 0x5C, CHR ''n'']
      else if c = CHR 0x0D then [CHR 0x5C, CHR ''r'']
      else if c = CHR 0x09 then [CHR 0x5C, CHR ''t'']
      else if of_char c < (32::nat) \<or> ((127::nat) \<le> of_char c \<and> of_char c \<le> (160::nat))
              \<or> of_char c = (173::nat)
        then [CHR 0x5C, CHR ''x'', digit_char (of_char c div 16), digit_char (of_char c mod 16)]
      else [c])"

definition repr_str :: "string \<Rightarrow> string" where
  "repr_str s =
     (let q = (if CHR 0x27 \<in> set s \<and> CHR 0x22 \<notin> set s then CHR 0x22 else CHR 0x27)
      in [q] @ concat (map (repr_char q) s) @ [q])"

fun py_repr :: "pyval \<Rightarrow> string" where
  "py_repr (VStr s) = repr_str s"
| "py_repr (VInt i) = str_int i"
| "py_repr (VBool b) = (if b then ''True'' else ''False'')"
| "py_repr VNone = ''None''"

text \<open>\<open>repr\<close> of a list, as an f-string interpolates \<open>spec['enum']\<close>.\<close>

fun join_comma :: "string list \<Rightarrow> string" where
  "join_comma [] = []"
| "join_comma [x] = x"
| "join_comma (x # y # ys) = x @ '', '' @ join_comma (y # ys)"

definition repr_list :: "pyval list \<Rightarrow> string" where
  "repr_list xs = ''['' @ join_comma (map py_repr xs) @ '']''"

subsection \<open>Patterns\<close>

text \<open>
  \<open>re.match\<close> belongs to Python's library. A pattern is a valid regular expression
  (a schema whose pattern text does not compile is not modelled) and is held in parsed
  form, for the fragment of the pattern syntax with literal characters, \<open>.\<close>, \<open>^\<close>, sequence,
  \<open>|\<close> and \<open>*\<close>. \<open>ends r s i\<close> lists the positions where a match of \<open>r\<close> that
  starts at position \<open>i\<close> of \<open>s\<close> can end.
\<close>

datatype regex = Eps | Chr char | Dot | Bol | Seq regex regex | Alt regex regex | Star regex

fun star_iter :: "nat \<Rightarrow> (nat \<Rightarrow> nat list) \<Rightarrow> nat list \<Rightarrow> nat list" where
  "star_iter 0 f acc = acc"
| "star_iter (Suc k) f acc = star_iter k f (remdups (acc @ concat (map f acc)))"

fun ends :: "regex \<Rightarrow> string \<Rightarrow> nat \<Rightarrow> nat list" where
  "ends Eps s i = [i]"
| "ends (Chr c) s i = (if i < length s \<and> s ! i = c then [Suc i] else [])"
| "ends Dot s i = (if i < length s \<and> s ! i \<noteq> CHR 0x0A then [Suc i] else [])"
| "ends Bol s i = (if i = 0 then [i] else [])"
| "ends (Seq a b) s i = concat (map (ends b s) (ends a s i))"
| "ends (Alt a b) s i = ends a s i @ ends b s i"
| "ends (Star a) s i = star_iter (length s) (\<lambda>j. ends a s j) [i]"

text \<open>\<open>re.match\<close> looks for a match that starts at position 0, \<open>re.search\<close> at any position.\<close>

definition re_match :: "regex \<Rightarrow> string \<Rightarrow> bool" where
  "re_match r s = (ends r s 0 \<noteq> [])"

definition re_search :: "regex \<Rightarrow> string \<Rightarrow> bool" where
  "re_search r s = list_ex (\<lambda>i. ends r s i \<noteq> []) [0 ..< Suc (length s)]"

subsection \<open>Rule specs, schemas, records\<close>

text \<open>
  A rule spec is the dict of one field's constraints; a key that is absent is \<open>None\<close>.
  The keys hold what the schema format gives them: a type tag, whole numbers, a
  pattern, a list of values.
\<close>

record rule_spec =
  spec_type :: "string option"
  spec_min_length :: "int option"
  spec_max_length :: "int option"
  spec_pattern :: "regex option"
  spec_enum :: "pyval list option"
  spec_minimum :: "int option"
  spec_maximum :: "int option"

text \<open>The spec with no key at all, \<open>{}\<close>.\<close>

definition empty_spec :: rule_spec where
  "empty_spec =
     \<lparr>spec_type = None, spec_min_length = None, spec_max_length = None, spec_pattern = None,
      spec_enum = None, spec_minimum = None, spec_maximum = None\<rparr>"

text \<open>
  A schema: \<open>properties\<close> in declaration order (a dict, so the field names are
  distinct) and \<open>required\<close>; either key may be absent.
\<close>

record schema =
  properties :: "(string \<times> rule_spec) list option"
  required :: "string list option"

type_synonym user_data = "string \<rightharpoonup> pyval"

section \<open>The field evaluator\<close>

text \<open>
  The seven blocks of \<open>validate_field\<close>, in the order of the source text. Each one
  takes the list \<open>errors\<close> as it stands and hands it back, with its message appended
  when its condition holds.
\<close>

definition check_type :: "string \<Rightarrow> pyval \<Rightarrow> rule_spec \<Rightarrow> string list \<Rightarrow> string list" where
  "check_type field val spec errors =
     (case spec_type spec of
        None \<Rightarrow> errors
      | Some t \<Rightarrow>
          if t = ''string'' then
            (if \<not> isinstance_str val then errors @ [field @ '' should be a string.'']
             else errors)
          else if t = ''integer'' then
            (if \<not> isinstance_int val then errors @ [field @ '' should be an integer.'']
             else errors)
          else if t = ''boolean'' then
            (if \<not> isinstance_bool val then errors @ [field @ '' should be a boolean.'']
             else errors)
          else errors)"

definition check_min_length :: "string \<Rightarrow> pyval \<Rightarrow> rule_spec \<Rightarrow> string list \<Rightarrow> string list" where
  "check_min_length field val spec errors =
     (case (spec_min_length spec, val) of
        (Some n, VStr s) \<Rightarrow>
          if int (length s) < n
          then errors @ [field @ '' should be at least '' @ str_int n @ '' characters.'']
          else errors
      | _ \<Rightarrow> errors)"

definition check_max_length :: "string \<Rightarrow> pyval \<Rightarrow> rule_spec \<Rightarrow> string list \<Rightarrow> string list" where
  "check_max_length field val spec errors =
     (case (spec_max_length spec, val) of
        (Some n, VStr s) \<Rightarrow>
          if int (length s) > n
          then errors @ [field @ '' should be at most '' @ str_int n @ '' characters.'']
          else errors
      | _ \<Rightarrow> errors)"

definition check_pattern :: "string \<Rightarrow> pyval \<Rightarrow> rule_spec \<Rightarrow> string list \<Rightarrow> string list" where
  "check_pattern field val spec errors =
     (case (spec_pattern spec, val) of
        (Some p, VStr s) \<Rightarrow>
          if \<not> re_match p s
          then errors @ [field @ '' does not match required pattern.'']
          else errors
      | _ \<Rightarrow> errors)"

definition check_enum :: "string \<Rightarrow> pyval \<Rightarrow> rule_spec \<Rightarrow> string list \<Rightarrow> string list" where
  "check_enum field val spec errors =
     (case spec_enum spec of
        Some e \<Rightarrow>
          if \<not> py_in val e
          then errors @ [field @ '' must be one of '' @ repr_list e @ ''.'']
          else errors
      | None \<Rightarrow> errors)"

definition check_minimum :: "string \<Rightarrow> pyval \<Rightarrow> rule_spec \<Rightarrow> string list \<Rightarrow> string list" where
  "check_minimum field val spec errors =
     (case (spec_minimum spec, int_value val) of
        (Some m, Some i) \<Rightarrow>
          if i < m
          then errors @ [field @ '' must be at least '' @ str_int m @ ''.'']
          else errors
      | _ \<Rightarrow> errors)"

definition check_maximum :: "string \<Rightarrow> pyval \<Rightarrow> rule_spec \<Rightarrow> string list \<Rightarrow> string list" where
  "check_maximum field val spec errors =
     (case (spec_maximum spec, int_value val) of
        (Some m, Some i) \<Rightarrow>
          if i > m
          then errors @ [field @ '' must be at most '' @ str_int m @ ''.'']
          else errors
      | _ \<Rightarrow> errors)"

definition validate_field :: "string \<Rightarrow> pyval \<Rightarrow> rule_spec \<Rightarrow> string list" where
  "validate_field field val spec =
     (let errors = [];
          errors = check_type field val spec errors;
          errors = check_min_length field val spec errors;
          errors = check_max_length field val spec errors;
          errors = check_pattern field val spec errors;
          errors = check_enum field val spec errors;
          errors = check_minimum field val spec errors;
          errors = check_maximum field val spec errors
      in errors)"

section \<open>The record validator\<close>

text \<open>\<open>schema.get('properties', {}).items()\<close>.\<close>

definition schema_items :: "schema \<Rightarrow> (string \<times> rule_spec) list" where
  "schema_items sch = (case properties sch of None \<Rightarrow> [] | Some ps \<Rightarrow> ps)"

text \<open>\<open>schema.get('required', []) and field in schema['required']\<close>.\<close>

definition is_required :: "schema \<Rightarrow> string \<Rightarrow> bool" where
  "is_required sch field =
     (case required sch of None \<Rightarrow> False | Some rs \<Rightarrow> rs \<noteq> [] \<and> field \<in> set rs)"

text \<open>One pass of the loop body of \<open>validate_data\<close>.\<close>

definition validate_step :: "schema \<Rightarrow> user_data \<Rightarrow> string \<times> rule_spec \<Rightarrow> string list \<Rightarrow> string list" where
  "validate_step sch data p errors =
     (case data (fst p) of
        None \<Rightarrow> if is_required sch (fst p) then errors @ [fst p @ '' is required.''] else errors
      | Some v \<Rightarrow> errors @ validate_field (fst p) v (snd p))"

fun validate_loop :: "schema \<Rightarrow> user_data \<Rightarrow> (string \<times> rule_spec) list \<Rightarrow> string list \<Rightarrow> string list" where
  "validate_loop sch data [] errors = errors"
| "validate_loop sch data (p # ps) errors =
     validate_loop sch data ps (validate_step sch data p errors)"

definition validate_data :: "schema \<Rightarrow> user_data \<Rightarrow> string list" where
  "validate_data sch data = validate_loop sch data (schema_items sch) []"

subsection \<open>The constraints one by one\<close>

text \<open>
  The seven blocks again, each taken by itself: the condition under which the block
  appends its message, as the code tests it (guard and comparison), read from the
  value and the block's own key alone, and the message it appends.
\<close>

definition type_violated :: "pyval \<Rightarrow> string option \<Rightarrow> bool" where
  "type_violated val t =
     (case t of
        None \<Rightarrow> False
      | Some t \<Rightarrow>
          if t = ''string'' then \<not> isinstance_str val
          else if t = ''integer'' then \<not> isinstance_int val
          else if t = ''boolean'' then \<not> isinstance_bool val
          else False)"

definition type_message :: "string \<Rightarrow> string option \<Rightarrow> string" where
  "type_message field t =
     (if t = Some ''string'' then field @ '' should be a string.''
      else if t = Some ''integer'' then field @ '' should be an integer.''
      else field @ '' should be a boolean.'')"

definition min_length_violated :: "pyval \<Rightarrow> int option \<Rightarrow> bool" where
  "min_length_violated val n =
     (case (n, val) of (Some n, VStr s) \<Rightarrow> int (length s) < n | _ \<Rightarrow> False)"

definition min_length_message :: "string \<Rightarrow> int option \<Rightarrow> string" where
  "min_length_message field n =
     field @ '' should be at least '' @ (case n of Some n \<Rightarrow> str_int n | None \<Rightarrow> []) @ '' characters.''"

definition max_length_violated :: "pyval \<Rightarrow> int option \<Rightarrow> bool" where
  "max_length_violated val n =
     (case (n, val) of (Some n, VStr s) \<Rightarrow> int (length s) > n | _ \<Rightarrow> False)"

definition max_length_message :: "string \<Rightarrow> int option \<Rightarrow> string" where
  "max_length_message field n =
     field @ '' should be at most '' @ (case n of Some n \<Rightarrow> str_int n | None \<Rightarrow> []) @ '' characters.''"

definition pattern_violated :: "pyval \<Rightarrow> regex option \<Rightarrow> bool" where
  "pattern_violated val p =
     (case (p, val) of (Some p, VStr s) \<Rightarrow> \<not> re_match p s | _ \<Rightarrow> False)"

definition pattern_message :: "string \<Rightarrow> string" where
  "pattern_message field = field @ '' does not match required pattern.''"

definition enum_violated :: "pyval \<Rightarrow> pyval list option \<Rightarrow> bool" where
  "enum_violated val e = (case e of Some e \<Rightarrow> \<not> py_in val e | None \<Rightarrow> False)"

definition enum_message :: "string \<Rightarrow> pyval list option \<Rightarrow> string" where
  "enum_message field e =
     field @ '' must be one of '' @ (case e of Some e \<Rightarrow> repr_list e | None \<Rightarrow> []) @ ''.''"

definition minimum_violated :: "pyval \<Rightarrow> int option \<Rightarrow> bool" where
  "minimum_violated val m =
     (case (m, int_value val) of (Some m, Some i) \<Rightarrow> i < m | _ \<Rightarrow> False)"

definition minimum_message :: "string \<Rightarrow> int option \<Rightarrow> string" where
  "minimum_message field m =
     field @ '' must be at least '' @ (case m of Some m \<Rightarrow> str_int m | None \<Rightarrow> []) @ ''.''"

definition maximum_violated :: "pyval \<Rightarrow> int option \<Rightarrow> bool" where
  "maximum_violated val m =
     (case (m, int_value val) of (Some m, Some i) \<Rightarrow> i > m | _ \<Rightarrow> False)"

definition maximum_message :: "string \<Rightarrow> int option \<Rightarrow> string" where
  "maximum_message field m =
     field @ '' must be at most '' @ (case m of Some m \<Rightarrow> str_int m | None \<Rightarrow> []) @ ''.''"

text \<open>The checks in the order of the source text, each with its message.\<close>

definition rule_checks :: "string \<Rightarrow> pyval \<Rightarrow> rule_spec \<Rightarrow> (bool \<times> string) list" where
  "rule_checks field val spec =
     [(type_violated val (spec_type spec), type_message field (spec_type spec)),
      (min_length_violated val (spec_min_length spec), min_length_message field (spec_min_length spec)),
      (max_length_violated val (spec_max_length spec), max_length_message field (spec_max_length spec)),
      (pattern_violated val (spec_pattern spec), pattern_message field),
      (enum_violated val (spec_enum spec), enum_message field (spec_enum spec)),
      (minimum_violated val (spec_minimum spec), minimum_message field (spec_minimum spec)),
      (maximum_violated val (spec_maximum spec), maximum_message field (spec_maximum spec))]"

subsection \<open>The constraints as the specification words them\<close>

text \<open>
  The specification carries the kind of a value explicitly: text, integer, boolean
  or absent. A boolean is not of integer kind: it violates the type \<open>integer\<close>, and
  the range constraints apply to values of integer kind only.
\<close>

fun kind_integer :: "pyval \<Rightarrow> int option" where
  "kind_integer (VInt i) = Some i"
| "kind_integer v = None"

definition stated_type_violated :: "pyval \<Rightarrow> string option \<Rightarrow> bool" where
  "stated_type_violated val t =
     (case t of
        None \<Rightarrow> False
      | Some t \<Rightarrow>
          if t = ''string'' then (case val of VStr s \<Rightarrow> False | _ \<Rightarrow> True)
          else if t = ''integer'' then (case val of VInt i \<Rightarrow> False | _ \<Rightarrow> True)
          else if t = ''boolean'' then (case val of VBool b \<Rightarrow> False | _ \<Rightarrow> True)
          else False)"

definition stated_minimum_violated :: "pyval \<Rightarrow> int option \<Rightarrow> bool" where
  "stated_minimum_violated val m =
     (case (m, kind_integer val) of (Some m, Some i) \<Rightarrow> i < m | _ \<Rightarrow> False)"

definition stated_maximum_violated :: "pyval \<Rightarrow> int option \<Rightarrow> bool" where
  "stated_maximum_violated val m =
     (case (m, kind_integer val) of (Some m, Some i) \<Rightarrow> i > m | _ \<Rightarrow> False)"

text \<open>An enum is violated by a value that is none of its elements, kind and all.\<close>

definition stated_enum_violated :: "pyval \<Rightarrow> pyval list option \<Rightarrow> bool" where
  "stated_enum_violated val e = (case e of Some e \<Rightarrow> val \<notin> set e | None \<Rightarrow> False)"

text \<open>
  The violated constraints of a field in the stated order, each with its message.
  The length and pattern constraints are worded as the code tests them.
\<close>

definition stated_rule_checks :: "string \<Rightarrow> pyval \<Rightarrow> rule_spec \<Rightarrow> (bool \<times> string) list" where
  "stated_rule_checks field val spec =
     [(stated_type_violated val (spec_type spec), type_message field (spec_type spec)),
      (min_length_violated val (spec_min_length spec), min_length_message field (spec_min_length spec)),
      (max_length_violated val (spec_max_length spec), max_length_message field (spec_max_length spec)),
      (pattern_violated val (spec_pattern spec), pattern_message field),
      (stated_enum_violated val (spec_enum spec), enum_message field (spec_enum spec)),
      (stated_minimum_violated val (spec_minimum spec), minimum_message field (spec_minimum spec)),
      (stated_maximum_violated val (spec_maximum spec), maximum_message field (spec_maximum spec))]"

section \<open>The case generator\<close>

text \<open>
  \<open>generate_test_cases\<close> builds one dict, appends it to \<open>cases\<close> and then derives the
  variants from copies of it. Dicts are objects: the store holds them, and \<open>cases\<close>
  holds references into the store.
\<close>

type_synonym ref = nat
type_synonym store = "user_data list"

datatype py_error = KeyError | IndexError | OverflowError | MemoryError

text \<open>\<open>{}\<close>, \<open>d.copy()\<close> and \<open>d[k] = v\<close>.\<close>

definition dict_new :: "store \<Rightarrow> ref \<times> store" where
  "dict_new h = (length h, h @ [Map.empty])"

definition dict_copy :: "ref \<Rightarrow> store \<Rightarrow> ref \<times> store" where
  "dict_copy a h = (length h, h @ [h ! a])"

definition dict_set :: "ref \<Rightarrow> string \<Rightarrow> pyval \<Rightarrow> store \<Rightarrow> store" where
  "dict_set a k v h = h[a := (h ! a)(k \<mapsto> v)]"

text \<open>
  \<open>c * n\<close> for a one-character string \<open>c\<close>. A count that is not positive gives the
  empty string. A count above \<open>sys.maxsize\<close> (a 64-bit build) raises
  \<open>OverflowError\<close>; a smaller count for which the interpreter cannot allocate the
  string raises \<open>MemoryError\<close>. \<open>cap\<close> is the longest string it can allocate.
\<close>

definition str_repeat :: "nat \<Rightarrow> char \<Rightarrow> int \<Rightarrow> py_error + string" where
  "str_repeat cap c n =
     (if n > 2 ^ 63 - 1 then Inl OverflowError
      else if n > int cap then Inl MemoryError
      else Inr (replicate (nat n) c))"

text \<open>
  The value the first loop stores for a field. \<open>spec['type']\<close> raises \<open>KeyError\<close>
  when the key is absent, \<open>spec['enum'][0]\<close> raises \<open>IndexError\<close> on an empty list.
\<close>

definition valid_value :: "nat \<Rightarrow> rule_spec \<Rightarrow> py_error + pyval" where
  "valid_value cap spec =
     (case spec_type spec of
        None \<Rightarrow> Inl KeyError
      | Some t \<Rightarrow>
          if t = ''string'' then
            (case spec_enum spec of
               Some e \<Rightarrow> (case e of [] \<Rightarrow> Inl IndexError | x # xs \<Rightarrow> Inr x)
             | None \<Rightarrow>
                 (case spec_min_length spec of
                    Some n \<Rightarrow>
                      (case str_repeat cap CHR ''x'' n of Inl e \<Rightarrow> Inl e | Inr s \<Rightarrow> Inr (VStr s))
                  | None \<Rightarrow> Inr (VStr ''test'')))
          else if t = ''integer'' then
            Inr (VInt (case spec_minimum spec of Some m \<Rightarrow> m | None \<Rightarrow> 0))
          else if t = ''boolean'' then Inr (VBool True)
          else Inr VNone)"

fun valid_loop :: "nat \<Rightarrow> ref \<Rightarrow> (string \<times> rule_spec) list \<Rightarrow> store \<Rightarrow> py_error + store" where
  "valid_loop cap valid_case [] h = Inr h"
| "valid_loop cap valid_case (p # ps) h =
     (case valid_value cap (snd p) of
        Inl e \<Rightarrow> Inl e
      | Inr v \<Rightarrow> valid_loop cap valid_case ps (dict_set valid_case (fst p) v h))"

text \<open>
  \<open>invalid = valid_case.copy(); invalid[field] = v; cases.append((label, invalid))\<close>.
\<close>

definition add_case ::
  "ref \<Rightarrow> string \<Rightarrow> pyval \<Rightarrow> string \<Rightarrow> (string \<times> ref) list \<times> store \<Rightarrow> (string \<times> ref) list \<times> store" where
  "add_case valid_case field v label st =
     (let (invalid, h) = dict_copy valid_case (snd st);
          h = dict_set invalid field v h
      in (fst st @ [(label, invalid)], h))"

definition invalid_step ::
  "ref \<Rightarrow> string \<times> rule_spec \<Rightarrow> (string \<times> ref) list \<times> store \<Rightarrow> py_error + (string \<times> ref) list \<times> store" where
  "invalid_step valid_case p st =
     (let field = fst p; spec = snd p in
      case spec_type spec of
        None \<Rightarrow> Inl KeyError
      | Some t \<Rightarrow>
          (let st =
                 (if t = ''string'' then
                    (let st = (case spec_min_length spec of
                                 Some n \<Rightarrow> add_case valid_case field (VStr []) (field @ '': too short'') st
                               | None \<Rightarrow> st);
                         st = (case spec_pattern spec of
                                 Some r \<Rightarrow> add_case valid_case field (VStr ''invalid'') (field @ '': invalid pattern'') st
                               | None \<Rightarrow> st)
                     in st)
                  else st);
               st =
                 (if t = ''integer'' then
                    (let st = (case spec_minimum spec of
                                 Some m \<Rightarrow> add_case valid_case field (VInt (m - 1)) (field @ '': below minimum'') st
                               | None \<Rightarrow> st);
                         st = (case spec_maximum spec of
                                 Some m \<Rightarrow> add_case valid_case field (VInt (m + 1)) (field @ '': above maximum'') st
                               | None \<Rightarrow> st)
                     in st)
                  else st);
               st = (case spec_enum spec of
                       Some e \<Rightarrow> add_case valid_case field (VStr ''not-in-enum'') (field @ '': not in enum'') st
                     | None \<Rightarrow> st)
           in Inr st))"

fun invalid_loop ::
  "ref \<Rightarrow> (string \<times> rule_spec) list \<Rightarrow> (string \<times> ref) list \<times> store \<Rightarrow> py_error + (string \<times> ref) list \<times> store" where
  "invalid_loop valid_case [] st = Inr st"
| "invalid_loop valid_case (p # ps) st =
     (case invalid_step valid_case p st of
        Inl e \<Rightarrow> Inl e
      | Inr st' \<Rightarrow> invalid_loop valid_case ps st')"

text \<open>
  The whole generator, run on a fresh store by an interpreter that can allocate
  strings of up to \<open>cap\<close> characters: the list of labelled references and the store
  they point into, or the exception raised.
\<close>

definition generate_test_cases :: "nat \<Rightarrow> schema \<Rightarrow> py_error + (string \<times> ref) list \<times> store" where
  "generate_test_cases cap sch =
     (let (valid_case, h) = dict_new [] in
      case valid_loop cap valid_case (schema_items sch) h of
        Inl e \<Rightarrow> Inl e
      | Inr h \<Rightarrow> invalid_loop valid_case (schema_items sch) ([(''Valid case'', valid_case)], h))"

text \<open>The returned list as the caller reads it: each reference followed into the store.\<close>

definition case_records :: "(string \<times> ref) list \<times> store \<Rightarrow> (string \<times> user_data) list" where
  "case_records res = map (\<lambda>c. (fst c, snd res ! snd c)) (fst res)"

text \<open>
  \<open>validate_data\<close> called on a reference, as \<open>run_test_cases\<close> calls it on the dict
  of a case: every pass reads the dict in the store, and the store is handed back.
\<close>

fun validate_loop_ref ::
  "schema \<Rightarrow> ref \<Rightarrow> (string \<times> rule_spec) list \<Rightarrow> string list \<times> store \<Rightarrow> string list \<times> store" where
  "validate_loop_ref sch a [] st = st"
| "validate_loop_ref sch a (p # ps) st =
     validate_loop_ref sch a ps (validate_step sch (snd st ! a) p (fst st), snd st)"

definition validate_data_ref :: "schema \<Rightarrow> ref \<Rightarrow> store \<Rightarrow> string list \<times> store" where
  "validate_data_ref sch a h = validate_loop_ref sch a (schema_items sch) ([], h)"

section \<open>Example schemas\<close>

text \<open>
  The schema of the example scenario: \<open>name\<close>, a string of at least 2 characters,
  and \<open>age\<close>, an integer from 0 to 120; \<open>name\<close> is required.
\<close>

definition name_spec :: rule_spec where
  "name_spec = empty_spec\<lparr>spec_type := Some ''string'', spec_min_length := Some 2\<rparr>"

definition age_spec :: rule_spec where
  "age_spec = empty_spec\<lparr>spec_type := Some ''integer'', spec_minimum := Some 0, spec_maximum := Some 120\<rparr>"

definition example_schema :: schema where
  "example_schema =
     \<lparr>properties = Some [(''name'', name_spec), (''age'', age_spec)], required = Some [''name'']\<rparr>"

text \<open>A schema whose one field is an integer with the allowed values \<open>[5]\<close>.\<close>

definition level_schema :: schema where
  "level_schema =
     \<lparr>properties = Some [(''level'', empty_spec\<lparr>spec_type := Some ''integer'', spec_enum := Some [VInt 5]\<rparr>)],
      required = None\<rparr>"


text \<open>
  A schema with a string field whose \<open>min_length\<close> is \<open>10 ^ 30\<close>, declared before a
  field whose spec has no key at all.
\<close>

definition huge_length_schema :: schema where
  "huge_length_schema =
     \<lparr>properties = Some [(''a'', empty_spec\<lparr>spec_type := Some ''string'', spec_min_length := Some (10 ^ 30)\<rparr>),
                          (''b'', empty_spec)],
      required = None\<rparr>"



text \<open>What the generator returns for the example scenario: four cases and their dicts.\<close>

definition example_cases :: "(string \<times> ref) list" where
  "example_cases =
     [(''Valid case'', 0), (''name: too short'', 1), (''age: below minimum'', 2),
      (''age: above maximum'', 3)]"

definition example_baseline :: user_data where
  "example_baseline = [''name'' \<mapsto> VStr ''xx'', ''age'' \<mapsto> VInt 0]"

definition example_store :: store where
  "example_store =
     [example_baseline,
      example_baseline(''name'' \<mapsto> VStr []),
      example_baseline(''age'' \<mapsto> VInt (- 1)),
      example_baseline(''age'' \<mapsto> VInt 121)]"

section \<open>Conditions used in the properties\<close>

text \<open>
  The state of the second loop of the generator is well formed: the dict at
  \<open>valid_case\<close> is still \<open>base\<close>, no two cases share a dict, the first case is the
  baseline, and every later case is a dict of its own that is \<open>base\<close> with one
  declared field overwritten.
\<close>

definition cases_ok ::
  "ref \<Rightarrow> user_data \<Rightarrow> (string \<times> rule_spec) list \<Rightarrow> (string \<times> ref) list \<times> store \<Rightarrow> bool" where
  "cases_ok a base ps st =
     (a < length (snd st) \<and> snd st ! a = base \<and> distinct (map snd (fst st))
      \<and> (\<exists>rest. fst st = (''Valid case'', a) # rest
            \<and> (\<forall>c \<in> set rest. snd c < length (snd st)
                  \<and> (\<exists>p \<in> set ps. \<exists>v. snd st ! snd c = base(fst p \<mapsto> v)))))"


section \<open>Properties of the field evaluator\<close>

lemmas check_defs = check_type_def check_min_length_def check_max_length_def
  check_pattern_def check_enum_def check_minimum_def check_maximum_def

lemmas eval_int = str_int_def str_nat.simps digit_char_def

text \<open>Each block leaves the messages before it in place and adds at most its own.\<close>

lemma check_type_app:
  "check_type field val spec errors =
     errors @ (if type_violated val (spec_type spec) then [type_message field (spec_type spec)] else [])"
  by (simp add: check_type_def type_violated_def type_message_def split: option.splits)

lemma check_min_length_app:
  "check_min_length field val spec errors =
     errors @ (if min_length_violated val (spec_min_length spec)
               then [min_length_message field (spec_min_length spec)] else [])"
  by (simp add: check_min_length_def min_length_violated_def min_length_message_def
           split: option.splits pyval.splits)

lemma check_max_length_app:
  "check_max_length field val spec errors =
     errors @ (if max_length_violated val (spec_max_length spec)
               then [max_length_message field (spec_max_length spec)] else [])"
  by (simp add: check_max_length_def max_length_violated_def max_length_message_def
           split: option.splits pyval.splits)

lemma check_pattern_app:
  "check_pattern field val spec errors =
     errors @ (if pattern_violated val (spec_pattern spec) then [pattern_message field] else [])"
  by (simp add: check_pattern_def pattern_violated_def pattern_message_def
           split: option.splits pyval.splits)

lemma check_enum_app:
  "check_enum field val spec errors =
     errors @ (if enum_violated val (spec_enum spec) then [enum_message field (spec_enum spec)] else [])"
  by (simp add: check_enum_def enum_violated_def enum_message_def split: option.splits)

lemma check_minimum_app:
  "check_minimum field val spec errors =
     errors @ (if minimum_violated val (spec_minimum spec)
               then [minimum_message field (spec_minimum spec)] else [])"
  by (simp add: check_minimum_def minimum_violated_def minimum_message_def split: option.splits)

lemma check_maximum_app:
  "check_maximum field val spec errors =
     errors @ (if maximum_violated val (spec_maximum spec)
               then [maximum_message field (spec_maximum spec)] else [])"
  by (simp add: check_maximum_def maximum_violated_def maximum_message_def split: option.splits)

lemmas violated_defs = type_violated_def min_length_violated_def max_length_violated_def
  pattern_violated_def enum_violated_def minimum_violated_def maximum_violated_def

lemmas check_apps = check_type_app check_min_length_app check_max_length_app
  check_pattern_app check_enum_app check_minimum_app check_maximum_app

lemma validate_field_checks:
  "validate_field field val spec = map snd (filter fst (rule_checks field val spec))"
  by (simp add: validate_field_def rule_checks_def check_apps)

text \<open>
  The length and pattern constraints are violated by strings only, the range
  constraints only by values of class \<open>int\<close>, which in Python takes in the booleans.
\<close>

lemma string_checks_need_str:
  "min_length_violated val n \<or> max_length_violated val n \<or> pattern_violated val p
     \<Longrightarrow> isinstance_str val"
  by (cases val)
     (auto simp: min_length_violated_def max_length_violated_def pattern_violated_def
           split: option.splits)

lemma range_checks_need_int:
  "minimum_violated val m \<or> maximum_violated val m \<Longrightarrow> isinstance_int val"
  by (cases val) (auto simp: minimum_violated_def maximum_violated_def split: option.splits)

text \<open>
  C1. Claimed: against a spec of type \<open>integer\<close> a boolean value always gets the
  message \<open>{field} should be an integer.\<close> The code tests \<open>isinstance(value, int)\<close>,
  which holds of \<open>True\<close> and \<open>False\<close>: for every field name and either boolean,
  \<open>validate_field\<close> with the spec \<open>{type: integer}\<close> returns no message at all.
\<close>

theorem boolean_accepted_as_integer:
  "validate_field field (VBool b) (empty_spec\<lparr>spec_type := Some ''integer''\<rparr>) = []"
  by (simp add: validate_field_def empty_spec_def check_defs)

text \<open>
  C3. Claimed: the \<open>minimum\<close> and \<open>maximum\<close> checks report a violation only for a
  value of integer kind, not a boolean. The guard of both checks is
  \<open>isinstance(value, int)\<close>, so a boolean is compared as 0 or 1: \<open>True\<close> against
  \<open>{minimum: 5}\<close> gets the message of the \<open>minimum\<close> check.
\<close>

theorem boolean_checked_against_minimum:
  "validate_field ''flag'' (VBool True) (empty_spec\<lparr>spec_minimum := Some 5\<rparr>)
     = [''flag must be at least 5.'']"
  by (simp add: validate_field_def empty_spec_def check_defs eval_int)

text \<open>
  Where no boolean is involved, in the value or among the elements of the enum, the
  code tests each constraint as the specification words it, so the messages are those
  of the violated constraints, one for each, in the stated order.
\<close>

lemma py_eq_exact:
  "\<not> isinstance_bool v \<Longrightarrow> \<not> isinstance_bool w \<Longrightarrow> py_eq v w = (v = w)"
  by (cases v; cases w) simp_all

lemma py_in_exact:
  "\<not> isinstance_bool v \<Longrightarrow> list_all (\<lambda>x. \<not> isinstance_bool x) e \<Longrightarrow> py_in v e = (v \<in> set e)"
  by (induction e) (auto simp: py_in_def py_eq_exact)

lemma stated_checks_agree:
  assumes "\<not> isinstance_bool val"
    and "case spec_enum spec of None \<Rightarrow> True | Some e \<Rightarrow> list_all (\<lambda>x. \<not> isinstance_bool x) e"
  shows "stated_rule_checks field val spec = rule_checks field val spec"
proof -
  have "stated_enum_violated val (spec_enum spec) = enum_violated val (spec_enum spec)"
    using assms by (simp add: stated_enum_violated_def enum_violated_def py_in_exact split: option.splits)
  moreover have "stated_type_violated val (spec_type spec) = type_violated val (spec_type spec)"
    using assms(1) by (cases val) (simp_all add: stated_type_violated_def type_violated_def split: option.splits)
  moreover have "stated_minimum_violated val (spec_minimum spec) = minimum_violated val (spec_minimum spec)"
    using assms(1) by (cases val) (simp_all add: stated_minimum_violated_def minimum_violated_def)
  moreover have "stated_maximum_violated val (spec_maximum spec) = maximum_violated val (spec_maximum spec)"
    using assms(1) by (cases val) (simp_all add: stated_maximum_violated_def maximum_violated_def)
  ultimately show ?thesis
    by (simp add: stated_rule_checks_def rule_checks_def)
qed

lemma validate_field_stated_checks:
  assumes "\<not> isinstance_bool val"
    and "case spec_enum spec of None \<Rightarrow> True | Some e \<Rightarrow> list_all (\<lambda>x. \<not> isinstance_bool x) e"
  shows "validate_field field val spec = map snd (filter fst (stated_rule_checks field val spec))"
  using stated_checks_agree [OF assms] by (simp add: validate_field_checks)

text \<open>
  C6. Claimed: a field with N violated constraints gets exactly N messages. A boolean
  against \<open>{type: integer}\<close> violates one constraint, the type, and \<open>validate_field\<close>
  returns no message: the type check takes the boolean for an integer.
\<close>

theorem boolean_violation_unreported:
  "map snd (filter fst (stated_rule_checks ''flag'' (VBool True) (empty_spec\<lparr>spec_type := Some ''integer''\<rparr>)))
     = [''flag should be an integer.'']
   \<and> validate_field ''flag'' (VBool True) (empty_spec\<lparr>spec_type := Some ''integer''\<rparr>) = []"
  by (simp add: stated_rule_checks_def stated_type_violated_def min_length_violated_def
        max_length_violated_def pattern_violated_def stated_enum_violated_def stated_minimum_violated_def
        stated_maximum_violated_def type_message_def validate_field_def check_defs empty_spec_def)

text \<open>
  C8. When the \<open>type\<close> key holds a tag other than \<open>string\<close>, \<open>integer\<close> and
  \<open>boolean\<close>, no type message is produced: the result is that of the six other
  checks, the same as for the spec without its \<open>type\<close> key.
\<close>

theorem unsupported_type_passthrough:
  assumes "spec_type spec = Some t" "t \<noteq> ''string''" "t \<noteq> ''integer''" "t \<noteq> ''boolean''"
  shows "\<not> type_violated val (spec_type spec)
     \<and> validate_field field val spec = map snd (filter fst (tl (rule_checks field val spec)))
     \<and> validate_field field val spec = validate_field field val (spec\<lparr>spec_type := None\<rparr>)"
  using assms by (simp add: validate_field_checks rule_checks_def type_violated_def)

theorem unsupported_type_passthrough_witness:
  "validate_field ''x'' (VInt 3) (empty_spec\<lparr>spec_type := Some ''number'', spec_maximum := Some 2\<rparr>)
     = validate_field ''x'' (VInt 3)
         (empty_spec\<lparr>spec_type := Some ''number'', spec_maximum := Some 2, spec_type := None\<rparr>)"
proof -
  have a: "spec_type (empty_spec\<lparr>spec_type := Some ''number'', spec_maximum := Some 2\<rparr>) = Some ''number''"
    by simp
  have b: "''number'' \<noteq> ''string''" "''number'' \<noteq> ''integer''" "''number'' \<noteq> ''boolean''"
    by simp_all
  from unsupported_type_passthrough [OF a b] show ?thesis by blast
qed

text \<open>The pattern message is the message of no other check.\<close>

lemma pattern_message_distinct:
  "pattern_message field \<noteq> type_message field t"
  "pattern_message field \<noteq> min_length_message field n"
  "pattern_message field \<noteq> max_length_message field n"
  "pattern_message field \<noteq> enum_message field e"
  "pattern_message field \<noteq> minimum_message field m"
  "pattern_message field \<noteq> maximum_message field m"
  by (simp_all add: pattern_message_def type_message_def min_length_message_def
        max_length_message_def enum_message_def minimum_message_def maximum_message_def)

text \<open>
  C7. For a string value and a spec with a pattern, the pattern message is among the
  messages exactly when the pattern has no match that starts at position 0. The
  pattern \<open>^A\<close> against \<open>xA\<close> gets the message; so does the pattern \<open>A\<close>, which
  matches \<open>xA\<close> at position 1 only.
\<close>

theorem pattern_anchored_at_start:
  "(spec_pattern spec = Some r \<longrightarrow>
      (pattern_message field \<in> set (validate_field field (VStr s) spec)) = (\<not> re_match r s))
   \<and> validate_field ''f'' (VStr ''xA'') (empty_spec\<lparr>spec_pattern := Some (Seq Bol (Chr CHR ''A''))\<rparr>)
       = [''f does not match required pattern.'']
   \<and> re_search (Chr CHR ''A'') ''xA''
   \<and> validate_field ''f'' (VStr ''xA'') (empty_spec\<lparr>spec_pattern := Some (Chr CHR ''A'')\<rparr>)
       = [''f does not match required pattern.'']"
proof (intro conjI impI)
  assume "spec_pattern spec = Some r"
  then show "(pattern_message field \<in> set (validate_field field (VStr s) spec)) = (\<not> re_match r s)"
    by (auto simp: validate_field_checks rule_checks_def pattern_message_distinct pattern_violated_def)
next
  show "validate_field ''f'' (VStr ''xA'') (empty_spec\<lparr>spec_pattern := Some (Seq Bol (Chr CHR ''A''))\<rparr>)
       = [''f does not match required pattern.'']"
    by (simp add: validate_field_def check_defs empty_spec_def re_match_def)
next
  show "re_search (Chr CHR ''A'') ''xA''"
    by (simp add: re_search_def)
next
  show "validate_field ''f'' (VStr ''xA'') (empty_spec\<lparr>spec_pattern := Some (Chr CHR ''A'')\<rparr>)
       = [''f does not match required pattern.'']"
    by (simp add: validate_field_def check_defs empty_spec_def re_match_def)
qed

theorem pattern_anchored_at_start_witness:
  "pattern_message ''f''
     \<in> set (validate_field ''f'' (VStr ''xA'') (empty_spec\<lparr>spec_pattern := Some (Chr CHR ''A'')\<rparr>))"
proof -
  have a: "spec_pattern (empty_spec\<lparr>spec_pattern := Some (Chr CHR ''A'')\<rparr>) = Some (Chr CHR ''A'')"
    by simp
  have b: "\<not> re_match (Chr CHR ''A'') ''xA''"
    by (simp add: re_match_def)
  from pattern_anchored_at_start [of "empty_spec\<lparr>spec_pattern := Some (Chr CHR ''A'')\<rparr>"
      "Chr CHR ''A''" "''f''" "''xA''"] a b
  show ?thesis by blast
qed

section \<open>Properties of the record validator\<close>

lemmas eval_validate = validate_data_def schema_items_def validate_step_def is_required_def
  validate_field_def check_defs empty_spec_def

text \<open>
  C4. The example scenario: \<open>{name: "Al", age: 30}\<close> is valid, \<open>{age: 200}\<close> gets
  the required-field message of \<open>name\<close> and the maximum message of \<open>age\<close>, and
  \<open>{name: "A", age: -1}\<close> gets the length message of \<open>name\<close> and the minimum
  message of \<open>age\<close>.
\<close>

theorem example_scenario:
  "validate_data example_schema [''name'' \<mapsto> VStr ''Al'', ''age'' \<mapsto> VInt 30] = []
   \<and> validate_data example_schema [''age'' \<mapsto> VInt 200]
       = [''name is required.'', ''age must be at most 120.'']
   \<and> validate_data example_schema [''name'' \<mapsto> VStr ''A'', ''age'' \<mapsto> VInt (- 1)]
       = [''name should be at least 2 characters.'', ''age must be at least 0.'']"
  by (simp add: example_schema_def name_spec_def age_spec_def eval_validate eval_int)

text \<open>The loop appends to the list it is given, and runs field by field.\<close>

lemma validate_loop_acc:
  "validate_loop sch data ps errors = errors @ validate_loop sch data ps []"
proof (induction ps arbitrary: errors)
  case Nil
  show ?case by simp
next
  case (Cons p ps)
  have step: "validate_step sch data p errors = errors @ validate_step sch data p []"
    by (simp add: validate_step_def split: option.splits)
  show ?case
    using Cons.IH [of "validate_step sch data p errors"] Cons.IH [of "validate_step sch data p []"]
    by (simp add: step)
qed

lemma validate_loop_append:
  "validate_loop sch data (ps @ qs) [] = validate_loop sch data ps [] @ validate_loop sch data qs []"
proof (induction ps)
  case Nil
  show ?case by simp
next
  case (Cons p ps)
  show ?case
    using validate_loop_acc [of sch data "ps @ qs" "validate_step sch data p []"]
      validate_loop_acc [of sch data ps "validate_step sch data p []"] Cons.IH
    by simp
qed

lemma validate_loop_schema:
  "required sch' = required sch \<Longrightarrow> validate_loop sch' data ps errors = validate_loop sch data ps errors"
  by (induction ps arbitrary: errors) (simp_all add: validate_step_def is_required_def)

text \<open>
  The output of \<open>validate_data\<close> is the output for the fields declared before a
  field, then what the pass for that field appends, then the output for the fields
  declared after it.
\<close>

lemma validate_data_split:
  assumes "schema_items sch = ps1 @ p # ps2"
  shows "validate_data sch data =
           validate_data (sch\<lparr>properties := Some ps1\<rparr>) data
           @ validate_step sch data p []
           @ validate_data (sch\<lparr>properties := Some ps2\<rparr>) data"
proof -
  have whole: "validate_data sch data = validate_loop sch data ps1 [] @ validate_loop sch data (p # ps2) []"
    by (simp only: validate_data_def assms validate_loop_append)
  have tail: "validate_loop sch data (p # ps2) [] = validate_step sch data p [] @ validate_loop sch data ps2 []"
    using validate_loop_acc [of sch data ps2 "validate_step sch data p []"] by simp
  have left: "validate_data (sch\<lparr>properties := Some ps1\<rparr>) data = validate_loop sch data ps1 []"
    using validate_loop_schema [of "sch\<lparr>properties := Some ps1\<rparr>" sch data ps1 "[]"]
    by (simp add: validate_data_def schema_items_def)
  have right: "validate_data (sch\<lparr>properties := Some ps2\<rparr>) data = validate_loop sch data ps2 []"
    using validate_loop_schema [of "sch\<lparr>properties := Some ps2\<rparr>" sch data ps2 "[]"]
    by (simp add: validate_data_def schema_items_def)
  show ?thesis by (simp only: whole tail left right)
qed

text \<open>
  C5. A declared field \<open>f\<close> that the record lacks contributes, at its place in the
  output, the single message \<open>{f} is required.\<close> when \<open>f\<close> is in the required list,
  and nothing when it is not; no check of \<open>validate_field\<close> runs for it.
\<close>

theorem absent_field_messages:
  assumes "schema_items sch = ps1 @ (f, spec) # ps2" and "data f = None"
  shows "validate_data sch data =
           validate_data (sch\<lparr>properties := Some ps1\<rparr>) data
           @ (if f \<in> set (case required sch of None \<Rightarrow> [] | Some rs \<Rightarrow> rs)
              then [f @ '' is required.''] else [])
           @ validate_data (sch\<lparr>properties := Some ps2\<rparr>) data"
  using validate_data_split [OF assms(1), of data] assms(2)
  by (auto simp: validate_step_def is_required_def split: option.splits)

theorem absent_field_messages_witness:
  "validate_data example_schema [''age'' \<mapsto> VInt 200] =
     validate_data (example_schema\<lparr>properties := Some []\<rparr>) [''age'' \<mapsto> VInt 200]
     @ [''name is required.'']
     @ validate_data (example_schema\<lparr>properties := Some [(''age'', age_spec)]\<rparr>) [''age'' \<mapsto> VInt 200]"
proof -
  have a: "schema_items example_schema = [] @ (''name'', name_spec) # [(''age'', age_spec)]"
    by (simp add: example_schema_def schema_items_def)
  have b: "[''age'' \<mapsto> VInt 200] ''name'' = None"
    by simp
  have c: "''name'' \<in> set (case required example_schema of None \<Rightarrow> [] | Some rs \<Rightarrow> rs)"
    by (simp add: example_schema_def)
  have d: "''name'' @ '' is required.'' = ''name is required.''"
    by simp
  show ?thesis
    using absent_field_messages [of example_schema "[]" "''name''" _ _ "[''age'' \<mapsto> VInt 200]", OF a b] c d
    by (simp only: if_True)
qed

section \<open>Properties of the case generator\<close>

lemmas eval_generate = generate_test_cases_def dict_new_def schema_items_def valid_value_def
  dict_set_def invalid_step_def empty_spec_def Let_def numeral_2_eq_2 numeral_3_eq_3

subsection \<open>The store operations\<close>

lemma dict_set_length: "length (dict_set a k v h) = length h"
  by (simp add: dict_set_def)

text \<open>Copying and then writing the copy adds one dict at the end of the store.\<close>

lemma add_case_eq:
  "add_case a field v label st =
     (fst st @ [(label, length (snd st))], snd st @ [(snd st ! a)(field \<mapsto> v)])"
  by (simp add: add_case_def dict_copy_def dict_set_def)

subsection \<open>The first loop\<close>

lemma valid_loop_length:
  "valid_loop cap a ps h = Inr h' \<Longrightarrow> length h' = length h"
  by (induction ps arbitrary: h) (auto simp: dict_set_length split: sum.splits)




text \<open>
  A \<open>min_length\<close> of \<open>10 ^ 30\<close> makes the first loop raise \<open>OverflowError\<close> at
  that field, whatever is declared after it.
\<close>

lemma huge_min_length_overflows:
  "generate_test_cases cap huge_length_schema = Inl OverflowError"
  by (simp add: huge_length_schema_def eval_generate str_repeat_def)

subsection \<open>The second loop\<close>

lemma add_case_ok:
  assumes "cases_ok a base ps st" "field \<in> fst ` set ps"
  shows "cases_ok a base ps (add_case a field v label st)"
proof -
  obtain p where p: "p \<in> set ps" "fst p = field" using assms(2) by auto
  from assms(1) obtain rest where rest: "fst st = (''Valid case'', a) # rest"
    and old: "\<forall>c \<in> set rest. snd c < length (snd st)
                  \<and> (\<exists>p \<in> set ps. \<exists>v. snd st ! snd c = base(fst p \<mapsto> v))"
    and a: "a < length (snd st)" "snd st ! a = base" and d: "distinct (map snd (fst st))"
    unfolding cases_ok_def by blast
  have fresh: "length (snd st) \<notin> snd ` set (fst st)"
    using rest old a by auto
  have new: "\<exists>p \<in> set ps. \<exists>v'. (snd st @ [base(field \<mapsto> v)]) ! length (snd st) = base(fst p \<mapsto> v')"
    using p by auto
  have keep: "\<forall>c \<in> set rest. snd c < length (snd st @ [base(field \<mapsto> v)])
                  \<and> (\<exists>p \<in> set ps. \<exists>v'. (snd st @ [base(field \<mapsto> v)]) ! snd c = base(fst p \<mapsto> v'))"
    using old by (auto simp: nth_append)
  show ?thesis
    unfolding cases_ok_def add_case_eq
    using rest a d fresh new keep by (auto simp: nth_append)
qed

lemma invalid_step_ok:
  assumes "cases_ok a base ps st" "p \<in> set ps" "invalid_step a p st = Inr st'"
  shows "cases_ok a base ps st'"
proof -
  have f: "fst p \<in> fst ` set ps" using assms(2) by simp
  note ok = add_case_ok [OF _ f]
  show ?thesis
    using assms(1,3)
    by (auto simp: invalid_step_def Let_def split: option.splits if_splits intro!: ok)
qed

lemma invalid_loop_ok:
  "cases_ok a base ps st \<Longrightarrow> set qs \<subseteq> set ps \<Longrightarrow> invalid_loop a qs st = Inr st'
     \<Longrightarrow> cases_ok a base ps st'"
proof (induction qs arbitrary: st)
  case Nil
  then show ?case by simp
next
  case (Cons q qs)
  from Cons.prems(3) obtain st1 where s1: "invalid_step a q st = Inr st1"
    and rest: "invalid_loop a qs st1 = Inr st'"
    by (auto split: sum.splits)
  have "cases_ok a base ps st1"
    using invalid_step_ok [OF Cons.prems(1) _ s1] Cons.prems(2) by simp
  then show ?case using Cons.IH [OF _ _ rest] Cons.prems(2) by simp
qed

text \<open>A run that returns went through both loops, and its result is well formed.\<close>

lemma generate_ok:
  assumes "generate_test_cases cap sch = Inr st"
  shows "\<exists>hb. valid_loop cap 0 (schema_items sch) [Map.empty] = Inr hb
           \<and> cases_ok 0 (hb ! 0) (schema_items sch) st"
proof -
  from assms obtain hb where hb: "valid_loop cap 0 (schema_items sch) [Map.empty] = Inr hb"
    and inv: "invalid_loop 0 (schema_items sch) ([(''Valid case'', 0)], hb) = Inr st"
    by (auto simp: generate_test_cases_def dict_new_def split: sum.splits)
  have "length hb = 1" using valid_loop_length [OF hb] by simp
  then have "cases_ok 0 (hb ! 0) (schema_items sch) ([(''Valid case'', 0)], hb)"
    by (simp add: cases_ok_def)
  from invalid_loop_ok [OF this _ inv] hb show ?thesis by simp
qed

lemma validate_loop_ref_eq:
  "validate_loop_ref sch a ps st = (validate_loop sch (snd st ! a) ps (fst st), snd st)"
  by (induction ps arbitrary: st) simp_all

lemma example_generated:
  "generate_test_cases 1000 example_schema = Inr (example_cases, example_store)"
  by (simp add: example_schema_def name_spec_def age_spec_def example_cases_def example_store_def
        example_baseline_def eval_generate add_case_eq str_repeat_def)

text \<open>
  C9. When the generator returns, its first case is the baseline, whose dict is as
  the first loop left it; no two cases share a dict; the dict of every later case is
  the baseline with one declared field overwritten. \<open>validate_data\<close>, run on a
  reference, hands the store back as it was.
\<close>

theorem generator_copies_baseline:
  assumes "generate_test_cases cap sch = Inr (cases, h)"
  shows "(\<exists>rest hb. cases = (''Valid case'', 0) # rest
            \<and> valid_loop cap 0 (schema_items sch) [Map.empty] = Inr hb \<and> h ! 0 = hb ! 0
            \<and> distinct (map snd cases)
            \<and> (\<forall>c \<in> set rest. \<exists>p \<in> set (schema_items sch). \<exists>v. h ! snd c = (h ! 0)(fst p \<mapsto> v)))
         \<and> validate_data_ref sch a h' = (validate_data sch (h' ! a), h')"
proof
  from generate_ok [OF assms] obtain hb where hb: "valid_loop cap 0 (schema_items sch) [Map.empty] = Inr hb"
    and ok: "cases_ok 0 (hb ! 0) (schema_items sch) (cases, h)" by blast
  from ok obtain rest where "cases = (''Valid case'', 0) # rest" "h ! 0 = hb ! 0" "distinct (map snd cases)"
    "\<forall>c \<in> set rest. \<exists>p \<in> set (schema_items sch). \<exists>v. h ! snd c = (hb ! 0)(fst p \<mapsto> v)"
    unfolding cases_ok_def by auto
  with hb show "\<exists>rest hb. cases = (''Valid case'', 0) # rest
            \<and> valid_loop cap 0 (schema_items sch) [Map.empty] = Inr hb \<and> h ! 0 = hb ! 0
            \<and> distinct (map snd cases)
            \<and> (\<forall>c \<in> set rest. \<exists>p \<in> set (schema_items sch). \<exists>v. h ! snd c = (h ! 0)(fst p \<mapsto> v))"
    by auto
next
  show "validate_data_ref sch a h' = (validate_data sch (h' ! a), h')"
    by (simp add: validate_data_ref_def validate_data_def validate_loop_ref_eq)
qed

theorem generator_copies_baseline_witness:
  "generate_test_cases 1000 example_schema = Inr (example_cases, example_store)
   \<and> (\<exists>rest hb. example_cases = (''Valid case'', 0) # rest
         \<and> valid_loop 1000 0 (schema_items example_schema) [Map.empty] = Inr hb
         \<and> example_store ! 0 = hb ! 0
         \<and> distinct (map snd example_cases)
         \<and> (\<forall>c \<in> set rest. \<exists>p \<in> set (schema_items example_schema). \<exists>v.
               example_store ! snd c = (example_store ! 0)(fst p \<mapsto> v)))
   \<and> validate_data_ref example_schema 0 example_store
       = (validate_data example_schema (example_store ! 0), example_store)"
  using example_generated generator_copies_baseline [OF example_generated, of 0 example_store]
  by blast

text \<open>
  C2. Claimed: the baseline record gets no message for a field whose constraints are
  drawn from \<open>min_length\<close>, \<open>enum\<close> and \<open>minimum\<close> alone. For the integer field
  \<open>level\<close> with \<open>enum: [5]\<close> the first loop stores 0 without looking at the
  enum, as it does look for a string field, and the record it labels \<open>Valid case\<close>
  gets the enum message.
\<close>

theorem baseline_rejected_by_enum:
  "generate_test_cases cap level_schema
     = Inr ([(''Valid case'', 0), (''level: not in enum'', 1)],
            [[''level'' \<mapsto> VInt 0], [''level'' \<mapsto> VInt 0, ''level'' \<mapsto> VStr ''not-in-enum'']])
   \<and> validate_data level_schema [''level'' \<mapsto> VInt 0] = [''level must be one of [5].'']"
  by (simp add: level_schema_def eval_generate add_case_eq eval_validate eval_int py_in_def
        repr_list_def)




end
